theory Spec2Isabelle
  imports Complex_Main "HOL-Library.Sublist"
begin

section \<open>Python, pandas and numpy primitives used by TrackViz.py\<close>

text \<open>
  Numeric cells are modelled as \<^typ>\<open>real\<close>: finite values with exact arithmetic, without
  rounding. The shift and the projection are modelled a second time on cells that can also be
  NaN or infinite, as a blank or non-finite cell of the file is.
  Column names are modelled as ASCII strings.
\<close>

datatype py_error = IndexError | KeyError | ValueError | CsvError string

definition bind_err :: "py_error + 'a \<Rightarrow> ('a \<Rightarrow> py_error + 'b) \<Rightarrow> py_error + 'b" where
  "bind_err r f = (case r of Inl e \<Rightarrow> Inl e | Inr x \<Rightarrow> f x)"

subsection \<open>Strings: \<^verbatim>\<open>str.lower\<close>, \<^verbatim>\<open>str.strip\<close>, \<^verbatim>\<open>in\<close>\<close>

definition ascii_upper :: string where
  "ascii_upper = ''ABCDEFGHIJKLMNOPQRSTUVWXYZ''"

definition ascii_lower :: string where
  "ascii_lower = ''abcdefghijklmnopqrstuvwxyz''"

definition lower_char :: "char \<Rightarrow> char" where
  "lower_char c = (case map_of (zip ascii_upper ascii_lower) c of None \<Rightarrow> c | Some d \<Rightarrow> d)"

definition lower :: "string \<Rightarrow> string" where
  "lower s = map lower_char s"

text \<open>The ASCII characters that \<^verbatim>\<open>str.strip()\<close> removes: 0x09-0x0D, 0x1C-0x1F and the space.\<close>

definition whitespace :: "char list" where
  "whitespace = [CHR 0x09, CHR 0x0A, CHR 0x0B, CHR 0x0C, CHR 0x0D,
                 CHR 0x1C, CHR 0x1D, CHR 0x1E, CHR 0x1F, CHR 0x20]"

definition is_space :: "char \<Rightarrow> bool" where
  "is_space c = (c \<in> set whitespace)"

definition strip :: "string \<Rightarrow> string" where
  "strip s = rev (dropWhile is_space (rev (dropWhile is_space s)))"

text \<open>\<^verbatim>\<open>p in s\<close> on strings: \<open>p\<close> occurs in \<open>s\<close> as a contiguous substring.\<close>

definition contains :: "string \<Rightarrow> string \<Rightarrow> bool" where
  "contains s p = sublist p s"

subsection \<open>The table: an ordered list of named numeric columns\<close>

type_synonym table = "(string \<times> real list) list"

definition columns :: "table \<Rightarrow> string list" where
  "columns df = map fst df"

definition len_df :: "table \<Rightarrow> nat" where
  "len_df df = (case df of [] \<Rightarrow> 0 | c # _ \<Rightarrow> length (snd c))"

definition head_df :: "table \<Rightarrow> table" where
  "head_df df = map (\<lambda>c. (fst c, take 5 (snd c))) df"

text \<open>What \<^verbatim>\<open>pd.read_csv\<close> delivers: unique column names, every column as long as the table.\<close>

definition wf_table :: "table \<Rightarrow> bool" where
  "wf_table df = (distinct (columns df) \<and> list_all (\<lambda>c. length (snd c) = len_df df) df)"

text \<open>\<^verbatim>\<open>df[key].values\<close>; the key is \<open>None\<close> when the resolver left the category unset.\<close>

definition df_getitem :: "table \<Rightarrow> string option \<Rightarrow> py_error + real list" where
  "df_getitem df key =
     (case key of
        None \<Rightarrow> Inl KeyError
      | Some c \<Rightarrow> (case map_of df c of None \<Rightarrow> Inl KeyError | Some v \<Rightarrow> Inr v))"

subsection \<open>numpy arrays as lists: indexing, slices, broadcasting\<close>

definition zeros_like :: "real list \<Rightarrow> real list" where
  "zeros_like a = replicate (length a) 0"

definition slice_bound :: "nat \<Rightarrow> int \<Rightarrow> nat" where
  "slice_bound n i = (if i < 0 then nat (max 0 (int n + i)) else min (nat i) n)"

definition slice_lo :: "nat \<Rightarrow> int option \<Rightarrow> nat" where
  "slice_lo n start = (case start of None \<Rightarrow> 0 | Some i \<Rightarrow> slice_bound n i)"

definition slice_hi :: "nat \<Rightarrow> int option \<Rightarrow> nat" where
  "slice_hi n stop = (case stop of None \<Rightarrow> n | Some j \<Rightarrow> slice_bound n j)"

text \<open>\<^verbatim>\<open>a[start:stop]\<close>\<close>

definition getslice :: "'a list \<Rightarrow> int option \<Rightarrow> int option \<Rightarrow> 'a list" where
  "getslice a start stop =
     (let lo = slice_lo (length a) start; hi = slice_hi (length a) stop
      in take (hi - lo) (drop lo a))"

text \<open>\<^verbatim>\<open>a[start:stop] = v\<close>: the shapes must agree, or \<open>v\<close> has one element and is broadcast.\<close>

definition setslice :: "'a list \<Rightarrow> int option \<Rightarrow> int option \<Rightarrow> 'a list \<Rightarrow> py_error + 'a list" where
  "setslice a start stop v =
     (let lo = slice_lo (length a) start; hi = slice_hi (length a) stop; k = hi - lo
      in if length v = k then Inr (take lo a @ v @ drop (lo + k) a)
         else if length v = 1 then Inr (take lo a @ replicate k (hd v) @ drop (lo + k) a)
         else Inl ValueError)"

definition index_of :: "nat \<Rightarrow> int \<Rightarrow> py_error + nat" where
  "index_of n i =
     (let j = (if i < 0 then int n + i else i)
      in if 0 \<le> j \<and> j < int n then Inr (nat j) else Inl IndexError)"

text \<open>\<^verbatim>\<open>a[i]\<close> and \<^verbatim>\<open>a[i] = v\<close>\<close>

definition getitem :: "'a list \<Rightarrow> int \<Rightarrow> py_error + 'a" where
  "getitem a i = bind_err (index_of (length a) i) (\<lambda>j. Inr (a ! j))"

definition setitem :: "'a list \<Rightarrow> int \<Rightarrow> 'a \<Rightarrow> py_error + 'a list" where
  "setitem a i v = bind_err (index_of (length a) i) (\<lambda>j. Inr (a[j := v]))"

text \<open>\<^verbatim>\<open>x + y\<close> on one-dimensional arrays, with numpy's broadcasting of a one-element operand.\<close>

definition np_add :: "real list \<Rightarrow> real list \<Rightarrow> py_error + real list" where
  "np_add xs ys =
     (if length xs = length ys then Inr (map2 (+) xs ys)
      else if length xs = 1 then Inr (map (\<lambda>y. hd xs + y) ys)
      else if length ys = 1 then Inr (map (\<lambda>x. x + hd ys) xs)
      else Inl ValueError)"

definition radians :: "real \<Rightarrow> real" where
  "radians x = x * pi / 180"

text \<open>\<^verbatim>\<open>a.min()\<close> and \<^verbatim>\<open>a.max()\<close> raise on an empty array.\<close>

definition np_min :: "real list \<Rightarrow> py_error + real" where
  "np_min a = (case a of [] \<Rightarrow> Inl ValueError | x # xs \<Rightarrow> Inr (fold min xs x))"

definition np_max :: "real list \<Rightarrow> py_error + real" where
  "np_max a = (case a of [] \<Rightarrow> Inl ValueError | x # xs \<Rightarrow> Inr (fold max xs x))"



section \<open>Column resolution\<close>

record column_mapping =
  lat_col :: "string option"
  lon_col :: "string option"
  heading_col :: "string option"

definition unresolved :: column_mapping where
  "unresolved = \<lparr>lat_col = None, lon_col = None, heading_col = None\<rparr>"

text \<open>The body of the loop at lines 30-37 of \<^verbatim>\<open>load_and_plot_gps_track\<close>.\<close>

definition strict_body :: "column_mapping \<Rightarrow> string \<Rightarrow> column_mapping" where
  "strict_body m col =
     (let col_lower = strip (lower col)
      in if contains col_lower ''latitude'' then m\<lparr>lat_col := Some col\<rparr>
         else if contains col_lower ''longitude'' \<or> contains col_lower ''long''
           then m\<lparr>lon_col := Some col\<rparr>
         else if contains col_lower ''course'' then m\<lparr>heading_col := Some col\<rparr>
         else m)"

definition resolve_strict :: "string list \<Rightarrow> column_mapping" where
  "resolve_strict cols = foldl strict_body unresolved cols"

text \<open>The body of the loop at lines 112-119 of \<^verbatim>\<open>plot_with_custom_settings\<close>.\<close>

definition permissive_body :: "column_mapping \<Rightarrow> string \<Rightarrow> column_mapping" where
  "permissive_body m col =
     (let col_lower = strip (lower col)
      in if contains col_lower ''lat'' then m\<lparr>lat_col := Some col\<rparr>
         else if contains col_lower ''lon'' \<or> contains col_lower ''long''
           then m\<lparr>lon_col := Some col\<rparr>
         else if contains col_lower ''head'' then m\<lparr>heading_col := Some col\<rparr>
         else m)"

definition resolve_permissive :: "string list \<Rightarrow> column_mapping" where
  "resolve_permissive cols = foldl permissive_body unresolved cols"

text \<open>Truthiness of a column variable, and \<^verbatim>\<open>all([...])\<close> at line 39.\<close>

definition truthy :: "string option \<Rightarrow> bool" where
  "truthy v = (case v of None \<Rightarrow> False | Some s \<Rightarrow> s \<noteq> [])"

definition py_all :: "string option list \<Rightarrow> bool" where
  "py_all vs = list_all truthy vs"

text \<open>
  The category that one pass of a loop body assigns a column to: the tests of the two loops, in
  their order (latitude first, then longitude, then heading).
\<close>

datatype category = Latitude | Longitude | Heading

definition classify_strict :: "string \<Rightarrow> category option" where
  "classify_strict col =
     (let s = strip (lower col)
      in if contains s ''latitude'' then Some Latitude
         else if contains s ''longitude'' \<or> contains s ''long'' then Some Longitude
         else if contains s ''course'' then Some Heading
         else None)"

definition classify_permissive :: "string \<Rightarrow> category option" where
  "classify_permissive col =
     (let s = strip (lower col)
      in if contains s ''lat'' then Some Latitude
         else if contains s ''lon'' \<or> contains s ''long'' then Some Longitude
         else if contains s ''head'' then Some Heading
         else None)"

text \<open>The last column, in scan order, that a loop body assigns to category \<open>k\<close>.\<close>

definition last_of :: "(string \<Rightarrow> category option) \<Rightarrow> category \<Rightarrow> string list \<Rightarrow> string option" where
  "last_of cl k cols = find (\<lambda>c. cl c = Some k) (rev cols)"

text \<open>
  The rule in the words of the specification, for comparison with the loops: each category
  keeps the first column assigned to it, and later ones are ignored.
\<close>

definition spec_first_match :: "(string \<Rightarrow> category option) \<Rightarrow> category \<Rightarrow> string list \<Rightarrow> string option" where
  "spec_first_match cl k cols = find (\<lambda>c. cl c = Some k) cols"

section \<open>The heading shift and the segment ends\<close>

text \<open>Lines 51-56: the array \<^verbatim>\<open>shifted_headings\<close> built from \<^verbatim>\<open>headings\<close>.\<close>

definition shifted_headings :: "real list \<Rightarrow> py_error + real list" where
  "shifted_headings headings =
     bind_err (setslice (zeros_like headings) (Some 0) None (getslice headings (Some 0) None))
       (\<lambda>s1. bind_err (setslice s1 None (Some (- 1)) (getslice headings (Some 1) None))
       (\<lambda>s2. bind_err (getitem headings (- 1))
       (\<lambda>own. setitem s2 (- 1) own)))"

text \<open>Lines 61-65 and 126-128: the ends of the segments, from the headings handed over.\<close>

definition segment_ends ::
  "real list \<Rightarrow> real list \<Rightarrow> real list \<Rightarrow> real \<Rightarrow> py_error + (real list \<times> real list)" where
  "segment_ends lats lons hs line_length =
     (let heading_rad = map (\<lambda>h. radians (90 - h)) hs
      in bind_err (np_add lats (map (\<lambda>a. line_length * sin a) heading_rad))
           (\<lambda>end_lats. bind_err (np_add lons (map (\<lambda>a. line_length * cos a) heading_rad))
           (\<lambda>end_lons. Inr (end_lats, end_lons))))"

text \<open>Lines 51-65 of \<^verbatim>\<open>load_and_plot_gps_track\<close>: shift, then project.\<close>

definition compute_segments ::
  "real list \<Rightarrow> real list \<Rightarrow> real list \<Rightarrow> real \<Rightarrow> py_error + (real list \<times> real list)" where
  "compute_segments lats lons headings line_length =
     bind_err (shifted_headings headings) (\<lambda>sh. segment_ends lats lons sh line_length)"

text \<open>Lines 126-128 of \<^verbatim>\<open>plot_with_custom_settings\<close>: project the headings as they are.\<close>

definition compute_segments_custom ::
  "real list \<Rightarrow> real list \<Rightarrow> real list \<Rightarrow> real \<Rightarrow> py_error + (real list \<times> real list)" where
  "compute_segments_custom lats lons headings line_length =
     segment_ends lats lons headings line_length"

section \<open>Rendering\<close>

type_synonym point = "real \<times> real"

record hist_call =
  hist_x :: "real list"
  hist_bins :: nat
  hist_range :: "(real \<times> real) option"

text \<open>
  What is drawn; a point is (longitude, latitude). Colours, sizes, titles and labels are left
  out, and with them the parameters \<^verbatim>\<open>point_size\<close>, \<^verbatim>\<open>line_color\<close> and \<^verbatim>\<open>point_color\<close>.
\<close>

record figure =
  scatter :: "point list"
  heading_lines :: "(point \<times> point) list"
  track :: "point list"
  histogram :: "hist_call option"

text \<open>The loops at lines 74-76 and 135-137, over the row numbers \<open>rows\<close>.\<close>

fun plot_heading_lines ::
  "real list \<Rightarrow> real list \<Rightarrow> real list \<Rightarrow> real list \<Rightarrow> nat list \<Rightarrow> py_error + (point \<times> point) list" where
  "plot_heading_lines lons end_lons lats end_lats [] = Inr []"
| "plot_heading_lines lons end_lons lats end_lats (i # rows) =
     bind_err (getitem lons (int i)) (\<lambda>x0.
     bind_err (getitem end_lons (int i)) (\<lambda>x1.
     bind_err (getitem lats (int i)) (\<lambda>y0.
     bind_err (getitem end_lats (int i)) (\<lambda>y1.
     bind_err (plot_heading_lines lons end_lons lats end_lats rows) (\<lambda>ls.
     Inr (((x0, y0), (x1, y1)) # ls))))))"

datatype message =
    Loaded nat
  | Columns "string list"
  | DataPreview table
  | ErrorLoadingCSV py_error
  | ErrorRequiredColumns
  | AvailableColumns "string list"
  | TrackStatistics
  | LatitudeRange real real
  | LongitudeRange real real
  | HeadingRange real real

text \<open>Lines 91-95: the statistics printed after plotting.\<close>

definition statistics :: "real list \<Rightarrow> real list \<Rightarrow> real list \<Rightarrow> py_error + message list" where
  "statistics lats lons headings =
     bind_err (np_min lats) (\<lambda>a0. bind_err (np_max lats) (\<lambda>a1.
     bind_err (np_min lons) (\<lambda>o0. bind_err (np_max lons) (\<lambda>o1.
     bind_err (np_min headings) (\<lambda>h0. bind_err (np_max headings) (\<lambda>h1.
     Inr [TrackStatistics, LatitudeRange a0 a1, LongitudeRange o0 o1, HeadingRange h0 h1]))))))"

text \<open>Lines 44-98 of \<^verbatim>\<open>load_and_plot_gps_track\<close>, once the columns are resolved.\<close>

definition render_basic ::
  "table \<Rightarrow> column_mapping \<Rightarrow> real \<Rightarrow> py_error + (figure \<times> message list)" where
  "render_basic df m line_length =
     bind_err (df_getitem df (lat_col m)) (\<lambda>lats.
     bind_err (df_getitem df (lon_col m)) (\<lambda>lons.
     bind_err (df_getitem df (heading_col m)) (\<lambda>headings.
     bind_err (compute_segments lats lons headings line_length) (\<lambda>(end_lats, end_lons).
     bind_err (plot_heading_lines lons end_lons lats end_lats [0..<length lats]) (\<lambda>ls.
     bind_err (statistics lats lons headings) (\<lambda>stats.
     Inr (\<lparr>scatter = zip lons lats, heading_lines = ls, track = zip lons lats,
           histogram = None\<rparr>, stats)))))))"

text \<open>Lines 121-153 of \<^verbatim>\<open>plot_with_custom_settings\<close>.\<close>

definition render_custom :: "table \<Rightarrow> column_mapping \<Rightarrow> real \<Rightarrow> py_error + figure" where
  "render_custom df m line_length =
     bind_err (df_getitem df (lat_col m)) (\<lambda>lats.
     bind_err (df_getitem df (lon_col m)) (\<lambda>lons.
     bind_err (df_getitem df (heading_col m)) (\<lambda>headings.
     bind_err (compute_segments_custom lats lons headings line_length) (\<lambda>(end_lats, end_lons).
     bind_err (plot_heading_lines lons end_lons lats end_lats [0..<length lats]) (\<lambda>ls.
     Inr \<lparr>scatter = zip lons lats, heading_lines = ls, track = zip lons lats,
          histogram = Some \<lparr>hist_x = headings, hist_bins = 36, hist_range = None\<rparr>\<rparr>)))))"

section \<open>The two entry points\<close>

text \<open>
  What a call does: the lines printed, the figure shown (if any), and either the exception
  that leaves the function or the value returned (\<open>None\<close> is Python's \<^verbatim>\<open>None\<close>).
\<close>

record outcome =
  printed :: "message list"
  shown :: "figure option"
  returned :: "py_error + table option"

text \<open>
  The first argument stands for \<^verbatim>\<open>pd.read_csv(csv_file)\<close>: the exception it raised or the
  table it loaded.
\<close>

definition load_and_plot_gps_track :: "py_error + table \<Rightarrow> real \<Rightarrow> outcome" where
  "load_and_plot_gps_track read_csv line_length =
     (case read_csv of
        Inl e \<Rightarrow> \<lparr>printed = [ErrorLoadingCSV e], shown = None, returned = Inr None\<rparr>
      | Inr df \<Rightarrow>
          (let out = [Loaded (len_df df), Columns (columns df), DataPreview (head_df df)];
               m = resolve_strict (columns df)
           in if \<not> py_all [lat_col m, lon_col m, heading_col m]
              then \<lparr>printed = out @ [ErrorRequiredColumns, AvailableColumns (columns df)],
                    shown = None, returned = Inr None\<rparr>
              else (case render_basic df m line_length of
                      Inl e \<Rightarrow> \<lparr>printed = out, shown = None, returned = Inl e\<rparr>
                    | Inr (fig, stats) \<Rightarrow>
                        \<lparr>printed = out @ stats, shown = Some fig, returned = Inr (Some df)\<rparr>)))"

definition plot_with_custom_settings :: "py_error + table \<Rightarrow> real \<Rightarrow> outcome" where
  "plot_with_custom_settings read_csv line_length =
     (case read_csv of
        Inl e \<Rightarrow> \<lparr>printed = [], shown = None, returned = Inl e\<rparr>
      | Inr df \<Rightarrow>
          (case render_custom df (resolve_permissive (columns df)) line_length of
             Inl e \<Rightarrow> \<lparr>printed = [], shown = None, returned = Inl e\<rparr>
           | Inr fig \<Rightarrow> \<lparr>printed = [], shown = Some fig, returned = Inr (Some df)\<rparr>))"

section \<open>The shift and the projection on cells that may be NaN or infinite\<close>

text \<open>
  A float64 cell: a finite value, NaN, or an infinity (\<open>Inf True\<close> is the positive one).
  Arithmetic on finite values is exact; rounding, overflow and the sign of zero are left out.
\<close>

datatype cell = Finite real | NaN | Inf bool

fun is_finite :: "cell \<Rightarrow> bool" where
  "is_finite (Finite x) = True"
| "is_finite NaN = False"
| "is_finite (Inf s) = False"

fun fl_neg :: "cell \<Rightarrow> cell" where
  "fl_neg (Finite x) = Finite (- x)"
| "fl_neg NaN = NaN"
| "fl_neg (Inf s) = Inf (\<not> s)"

fun fl_add :: "cell \<Rightarrow> cell \<Rightarrow> cell" where
  "fl_add (Finite x) (Finite y) = Finite (x + y)"
| "fl_add (Finite x) (Inf t) = Inf t"
| "fl_add (Inf s) (Finite y) = Inf s"
| "fl_add (Inf s) (Inf t) = (if s = t then Inf s else NaN)"
| "fl_add NaN y = NaN"
| "fl_add x NaN = NaN"

definition fl_sub :: "cell \<Rightarrow> cell \<Rightarrow> cell" where
  "fl_sub x y = fl_add x (fl_neg y)"

fun fl_mul :: "cell \<Rightarrow> cell \<Rightarrow> cell" where
  "fl_mul (Finite x) (Finite y) = Finite (x * y)"
| "fl_mul (Finite x) (Inf t) = (if x = 0 then NaN else Inf ((0 < x) = t))"
| "fl_mul (Inf s) (Finite y) = (if y = 0 then NaN else Inf (s = (0 < y)))"
| "fl_mul (Inf s) (Inf t) = Inf (s = t)"
| "fl_mul NaN y = NaN"
| "fl_mul x NaN = NaN"

text \<open>\<^verbatim>\<open>np.radians\<close>, \<^verbatim>\<open>np.sin\<close> and \<^verbatim>\<open>np.cos\<close>: the sine and cosine of an infinity are NaN.\<close>

fun fl_radians :: "cell \<Rightarrow> cell" where
  "fl_radians (Finite x) = Finite (radians x)"
| "fl_radians NaN = NaN"
| "fl_radians (Inf s) = Inf s"

fun fl_sin :: "cell \<Rightarrow> cell" where
  "fl_sin (Finite x) = Finite (sin x)"
| "fl_sin NaN = NaN"
| "fl_sin (Inf s) = NaN"

fun fl_cos :: "cell \<Rightarrow> cell" where
  "fl_cos (Finite x) = Finite (cos x)"
| "fl_cos NaN = NaN"
| "fl_cos (Inf s) = NaN"

definition fl_np_add :: "cell list \<Rightarrow> cell list \<Rightarrow> py_error + cell list" where
  "fl_np_add xs ys =
     (if length xs = length ys then Inr (map2 fl_add xs ys)
      else if length xs = 1 then Inr (map (\<lambda>y. fl_add (hd xs) y) ys)
      else if length ys = 1 then Inr (map (\<lambda>x. fl_add x (hd ys)) xs)
      else Inl ValueError)"

definition fl_zeros_like :: "cell list \<Rightarrow> cell list" where
  "fl_zeros_like a = replicate (length a) (Finite 0)"

text \<open>Lines 51-56 on such cells.\<close>

definition fl_shifted_headings :: "cell list \<Rightarrow> py_error + cell list" where
  "fl_shifted_headings headings =
     bind_err (setslice (fl_zeros_like headings) (Some 0) None (getslice headings (Some 0) None))
       (\<lambda>s1. bind_err (setslice s1 None (Some (- 1)) (getslice headings (Some 1) None))
       (\<lambda>s2. bind_err (getitem headings (- 1))
       (\<lambda>own. setitem s2 (- 1) own)))"

text \<open>Lines 61-65 and 126-128 on such cells.\<close>

definition fl_segment_ends ::
  "cell list \<Rightarrow> cell list \<Rightarrow> cell list \<Rightarrow> cell \<Rightarrow> py_error + (cell list \<times> cell list)" where
  "fl_segment_ends lats lons hs line_length =
     (let heading_rad = map (\<lambda>h. fl_radians (fl_sub (Finite 90) h)) hs
      in bind_err (fl_np_add lats (map (\<lambda>a. fl_mul line_length (fl_sin a)) heading_rad))
           (\<lambda>end_lats. bind_err (fl_np_add lons (map (\<lambda>a. fl_mul line_length (fl_cos a)) heading_rad))
           (\<lambda>end_lons. Inr (end_lats, end_lons))))"

definition fl_compute_segments ::
  "cell list \<Rightarrow> cell list \<Rightarrow> cell list \<Rightarrow> cell \<Rightarrow> py_error + (cell list \<times> cell list)" where
  "fl_compute_segments lats lons headings line_length =
     bind_err (fl_shifted_headings headings) (\<lambda>sh. fl_segment_ends lats lons sh line_length)"

definition fl_compute_segments_custom ::
  "cell list \<Rightarrow> cell list \<Rightarrow> cell list \<Rightarrow> cell \<Rightarrow> py_error + (cell list \<times> cell list)" where
  "fl_compute_segments_custom lats lons headings line_length =
     fl_segment_ends lats lons headings line_length"

section \<open>Helper lemmas\<close>

lemma bind_err_Inr [simp]: "bind_err (Inr x) f = f x"
  by (simp add: bind_err_def)

lemma bind_err_Inl [simp]: "bind_err (Inl e) f = Inl e"
  by (simp add: bind_err_def)

lemmas norm_simps = strip_def lower_def lower_char_def ascii_upper_def ascii_lower_def
  is_space_def whitespace_def

subsection \<open>Substrings\<close>

lemma contains_longitude_long: "contains s ''longitude'' \<Longrightarrow> contains s ''long''"
proof -
  assume a: "contains s ''longitude''"
  have "sublist ''long'' ''longitude''"
    by (simp add: sublist_code)
  with a show ?thesis
    unfolding contains_def by (rule sublist_order.order_trans[rotated])
qed

lemma longitude_test: "(contains s ''longitude'' \<or> contains s ''long'') = contains s ''long''"
  using contains_longitude_long by blast

subsection \<open>The resolver loops\<close>

lemma strict_body_classify:
  "strict_body m col =
     (case classify_strict col of
        None \<Rightarrow> m
      | Some Latitude \<Rightarrow> m\<lparr>lat_col := Some col\<rparr>
      | Some Longitude \<Rightarrow> m\<lparr>lon_col := Some col\<rparr>
      | Some Heading \<Rightarrow> m\<lparr>heading_col := Some col\<rparr>)"
  by (simp add: strict_body_def classify_strict_def Let_def)

lemma permissive_body_classify:
  "permissive_body m col =
     (case classify_permissive col of
        None \<Rightarrow> m
      | Some Latitude \<Rightarrow> m\<lparr>lat_col := Some col\<rparr>
      | Some Longitude \<Rightarrow> m\<lparr>lon_col := Some col\<rparr>
      | Some Heading \<Rightarrow> m\<lparr>heading_col := Some col\<rparr>)"
  by (simp add: permissive_body_def classify_permissive_def Let_def)

lemma last_of_snoc:
  "last_of cl k (cols @ [c]) = (if cl c = Some k then Some c else last_of cl k cols)"
  by (simp add: last_of_def)

lemma last_of_Nil: "last_of cl k [] = None"
  by (simp add: last_of_def)

text \<open>A loop whose body assigns by category keeps, per category, the last column assigned.\<close>

lemma foldl_last_of:
  assumes body: "\<And>m col. body m col =
     (case cl col of
        None \<Rightarrow> m
      | Some Latitude \<Rightarrow> m\<lparr>lat_col := Some col\<rparr>
      | Some Longitude \<Rightarrow> m\<lparr>lon_col := Some col\<rparr>
      | Some Heading \<Rightarrow> m\<lparr>heading_col := Some col\<rparr>)"
  shows "foldl body unresolved cols =
     \<lparr>lat_col = last_of cl Latitude cols, lon_col = last_of cl Longitude cols,
      heading_col = last_of cl Heading cols\<rparr>"
proof (induction cols rule: rev_induct)
  case Nil
  show ?case by (simp add: unresolved_def last_of_Nil)
next
  case (snoc c cols)
  have "foldl body unresolved (cols @ [c]) = body (foldl body unresolved cols) c"
    by simp
  also have "\<dots> = body \<lparr>lat_col = last_of cl Latitude cols, lon_col = last_of cl Longitude cols,
      heading_col = last_of cl Heading cols\<rparr> c"
    by (simp only: snoc.IH)
  also have "\<dots> = \<lparr>lat_col = last_of cl Latitude (cols @ [c]),
      lon_col = last_of cl Longitude (cols @ [c]), heading_col = last_of cl Heading (cols @ [c])\<rparr>"
    by (simp add: body last_of_snoc split: option.splits category.splits)
  finally show ?case .
qed

lemma resolve_strict_last:
  "resolve_strict cols =
     \<lparr>lat_col = last_of classify_strict Latitude cols,
      lon_col = last_of classify_strict Longitude cols,
      heading_col = last_of classify_strict Heading cols\<rparr>"
  unfolding resolve_strict_def by (rule foldl_last_of) (rule strict_body_classify)

lemma resolve_permissive_last:
  "resolve_permissive cols =
     \<lparr>lat_col = last_of classify_permissive Latitude cols,
      lon_col = last_of classify_permissive Longitude cols,
      heading_col = last_of classify_permissive Heading cols\<rparr>"
  unfolding resolve_permissive_def by (rule foldl_last_of) (rule permissive_body_classify)

subsection \<open>Slices and indices\<close>

lemma getslice_all: "getslice a (Some 0) None = a"
  by (simp add: getslice_def slice_lo_def slice_hi_def slice_bound_def)

lemma getslice_from_1: "getslice a (Some 1) None = tl a"
  by (cases a) (simp_all add: getslice_def slice_lo_def slice_hi_def slice_bound_def)

lemma setslice_all: "length v = length a \<Longrightarrow> setslice a (Some 0) None v = Inr v"
  by (simp add: setslice_def slice_lo_def slice_hi_def slice_bound_def)

lemma setslice_but_last:
  "a \<noteq> [] \<Longrightarrow> length v = length a - 1 \<Longrightarrow> setslice a None (Some (- 1)) v = Inr (v @ [last a])"
proof -
  assume ne: "a \<noteq> []" and len: "length v = length a - 1"
  have hi: "slice_hi (length a) (Some (- 1)) = length a - 1"
    by (simp add: slice_hi_def slice_bound_def)
  have "drop (length a - 1) a = drop (length (butlast a)) (butlast a @ [last a])"
    using ne by simp
  also have "\<dots> = [last a]"
    by (simp del: append_butlast_last_id)
  finally have "drop (length a - 1) a = [last a]" .
  then show ?thesis
    using len by (simp add: setslice_def slice_lo_def hi)
qed

lemma setslice_but_last_Nil: "setslice [] None (Some (- 1)) [] = Inr []"
  by (simp add: setslice_def slice_lo_def slice_hi_def slice_bound_def)

lemma getitem_last: "a \<noteq> [] \<Longrightarrow> getitem a (- 1) = Inr (last a)"
  by (simp add: getitem_def index_of_def last_conv_nth nat_diff_distrib' of_nat_diff)

lemma getitem_last_Nil: "getitem [] (- 1) = Inl IndexError"
  by (simp add: getitem_def index_of_def)

lemma setitem_last: "setitem (v @ [x]) (- 1) y = Inr (v @ [y])"
  by (simp add: setitem_def index_of_def)

lemma getitem_nat: "i < length a \<Longrightarrow> getitem a (int i) = Inr (a ! i)"
  by (simp add: getitem_def index_of_def)

subsection \<open>The shift\<close>

lemma shifted_headings_eq:
  "headings \<noteq> [] \<Longrightarrow> shifted_headings headings = Inr (tl headings @ [last headings])"
  by (simp add: shifted_headings_def zeros_like_def getslice_all getslice_from_1 setslice_all
      setslice_but_last getitem_last setitem_last)

lemma shifted_headings_Nil: "shifted_headings [] = Inl IndexError"
  by (simp add: shifted_headings_def zeros_like_def getslice_all getslice_from_1 setslice_all
      setslice_but_last_Nil getitem_last_Nil)

subsection \<open>The segment ends\<close>

lemma np_add_same: "length xs = length ys \<Longrightarrow> np_add xs ys = Inr (map2 (+) xs ys)"
  by (simp add: np_add_def)

lemma segment_ends_eq:
  assumes "length lats = length hs" "length lons = length hs"
  shows "segment_ends lats lons hs line_length =
     Inr (map2 (+) lats (map (\<lambda>h. line_length * sin (radians (90 - h))) hs),
          map2 (+) lons (map (\<lambda>h. line_length * cos (radians (90 - h))) hs))"
  using assms by (simp add: segment_ends_def Let_def np_add_same comp_def)

lemma nth_map2_add:
  "i < length hs \<Longrightarrow> length xs = length hs \<Longrightarrow> map2 (+) xs (map f hs) ! i = xs ! i + f (hs ! i)"
  by simp

lemma radians_90: "radians 90 = pi / 2"
  by (simp add: radians_def)

lemma radians_0: "radians 0 = 0"
  by (simp add: radians_def)

subsection \<open>Tables, drawing and statistics\<close>

lemma plot_heading_lines_eq:
  assumes "length lons = n" "length end_lons = n" "length lats = n" "length end_lats = n"
  shows "(\<forall>i \<in> set rows. i < n) \<Longrightarrow>
     plot_heading_lines lons end_lons lats end_lats rows =
       Inr (map (\<lambda>i. ((lons ! i, lats ! i), (end_lons ! i, end_lats ! i))) rows)"
  using assms by (induction rows) (simp_all add: getitem_nat)

lemma plot_heading_lines_upt:
  assumes "length lons = n" "length end_lons = n" "length lats = n" "length end_lats = n"
  shows "plot_heading_lines lons end_lons lats end_lats [0..<n] =
       Inr (map (\<lambda>i. ((lons ! i, lats ! i), (end_lons ! i, end_lats ! i))) [0..<n])"
  by (rule plot_heading_lines_eq[OF assms]) simp

lemma np_min_ne: "a \<noteq> [] \<Longrightarrow> np_min a = Inr (fold min (tl a) (hd a))"
  by (cases a) (simp_all add: np_min_def)

lemma np_max_ne: "a \<noteq> [] \<Longrightarrow> np_max a = Inr (fold max (tl a) (hd a))"
  by (cases a) (simp_all add: np_max_def)

lemma statistics_ne:
  "lats \<noteq> [] \<Longrightarrow> lons \<noteq> [] \<Longrightarrow> headings \<noteq> [] \<Longrightarrow>
   statistics lats lons headings =
     Inr [TrackStatistics,
          LatitudeRange (fold min (tl lats) (hd lats)) (fold max (tl lats) (hd lats)),
          LongitudeRange (fold min (tl lons) (hd lons)) (fold max (tl lons) (hd lons)),
          HeadingRange (fold min (tl headings) (hd headings)) (fold max (tl headings) (hd headings))]"
  by (simp add: statistics_def np_min_ne np_max_ne)

lemma find_Some_set: "find P xs = Some x \<Longrightarrow> x \<in> set xs \<and> P x"
  by (induction xs) (auto split: if_splits)

lemma last_of_in_set: "last_of cl k cols = Some c \<Longrightarrow> c \<in> set cols \<and> cl c = Some k"
  unfolding last_of_def by (drule find_Some_set) simp

lemma last_of_None: "(last_of cl k cols = None) = (\<forall>c \<in> set cols. cl c \<noteq> Some k)"
  by (auto simp: last_of_def find_None_iff)

lemma df_getitem_wf:
  assumes "wf_table df" "c \<in> set (columns df)"
  shows "\<exists>v. df_getitem df (Some c) = Inr v \<and> length v = len_df df"
proof -
  from assms(2) have "map_of df c \<noteq> None"
    by (simp add: map_of_eq_None_iff columns_def)
  then obtain v where v: "map_of df c = Some v"
    by auto
  then have "(c, v) \<in> set df" by (rule map_of_SomeD)
  with assms(1) have "length v = len_df df"
    by (auto simp: wf_table_def list_all_iff)
  with v show ?thesis by (simp add: df_getitem_def)
qed

lemma classify_strict_Nil: "classify_strict [] = None"
  by (simp add: classify_strict_def norm_simps contains_def)

lemma truthy_last_of_strict:
  "last_of classify_strict k cols = Some c \<Longrightarrow> truthy (Some c)"
  using classify_strict_Nil by (auto simp: truthy_def dest!: last_of_in_set)


lemma lines_ok:
  assumes "length lons = length lats" "length sh = length lats"
  shows "plot_heading_lines lons (map2 (+) lons (map f sh)) lats (map2 (+) lats (map g sh))
           [0..<length lats] =
         Inr (map (\<lambda>i. ((lons ! i, lats ! i), (lons ! i + f (sh ! i), lats ! i + g (sh ! i))))
           [0..<length lats])"
proof -
  have "plot_heading_lines lons (map2 (+) lons (map f sh)) lats (map2 (+) lats (map g sh))
           [0..<length lats] =
         Inr (map (\<lambda>i. ((lons ! i, lats ! i),
                (map2 (+) lons (map f sh) ! i, map2 (+) lats (map g sh) ! i))) [0..<length lats])"
    by (rule plot_heading_lines_upt) (simp_all add: assms)
  also have "map (\<lambda>i. ((lons ! i, lats ! i),
                (map2 (+) lons (map f sh) ! i, map2 (+) lats (map g sh) ! i))) [0..<length lats]
      = map (\<lambda>i. ((lons ! i, lats ! i), (lons ! i + f (sh ! i), lats ! i + g (sh ! i))))
           [0..<length lats]"
    by (rule map_cong) (simp_all add: assms)
  finally show ?thesis .
qed

lemma length_shift: "hs \<noteq> [] \<Longrightarrow> length (tl hs @ [last hs]) = length hs"
  by simp

lemma render_basic_ok:
  assumes wf: "wf_table df" and rows: "0 < len_df df"
    and a: "lat_col m = Some ca" "ca \<in> set (columns df)"
    and b: "lon_col m = Some co" "co \<in> set (columns df)"
    and c: "heading_col m = Some ch" "ch \<in> set (columns df)"
  shows "\<exists>fig stats. render_basic df m line_length = Inr (fig, stats)"
proof -
  from df_getitem_wf[OF wf a(2)] obtain lats where
    lats: "df_getitem df (Some ca) = Inr lats" "length lats = len_df df" by blast
  from df_getitem_wf[OF wf b(2)] obtain lons where
    lons: "df_getitem df (Some co) = Inr lons" "length lons = len_df df" by blast
  from df_getitem_wf[OF wf c(2)] obtain hs where
    hs: "df_getitem df (Some ch) = Inr hs" "length hs = len_df df" by blast
  from rows lats lons hs have ne: "hs \<noteq> []" "lats \<noteq> []" "lons \<noteq> []" by auto
  define sh where "sh = tl hs @ [last hs]"
  have shift: "shifted_headings hs = Inr sh"
    unfolding sh_def using ne(1) by (rule shifted_headings_eq)
  have len: "length sh = length lats" "length lons = length lats"
    "length lats = length sh" "length lons = length sh"
    unfolding sh_def by (simp_all only: length_shift[OF ne(1)] hs lats lons)
  have seg: "compute_segments lats lons hs line_length =
     Inr (map2 (+) lats (map (\<lambda>h. line_length * sin (radians (90 - h))) sh),
          map2 (+) lons (map (\<lambda>h. line_length * cos (radians (90 - h))) sh))"
    unfolding compute_segments_def shift bind_err_Inr
    by (rule segment_ends_eq) (rule len)+
  show ?thesis
    by (simp only: render_basic_def a b c lats(1) lons(1) hs(1) bind_err_Inr seg prod.case
        lines_ok[OF len(2) len(1)] statistics_ne[OF ne(2) ne(3) ne(1)]) blast
qed

subsection \<open>The entry points\<close>

lemma py_all_3: "py_all [a, b, c] = (truthy a \<and> truthy b \<and> truthy c)"
  by (simp add: py_all_def)

lemma truthy_None: "\<not> truthy None"
  by (simp add: truthy_def)

lemma df_getitem_Inl: "df_getitem df k = Inl e \<Longrightarrow> e = KeyError"
  by (auto simp: df_getitem_def split: option.splits)

lemma df_getitem_None: "df_getitem df None = Inl KeyError"
  by (simp add: df_getitem_def)

lemma render_custom_unresolved:
  assumes "lat_col m = None \<or> lon_col m = None \<or> heading_col m = None"
  shows "render_custom df m line_length = Inl KeyError"
proof (cases "df_getitem df (lat_col m)")
  case (Inl e)
  then show ?thesis
    using df_getitem_Inl[OF Inl] by (simp add: render_custom_def)
next
  case lats: (Inr lats)
  then have a: "lat_col m \<noteq> None"
    by (cases "lat_col m") (simp_all add: df_getitem_def)
  show ?thesis
  proof (cases "df_getitem df (lon_col m)")
    case (Inl e)
    then show ?thesis
      using df_getitem_Inl[OF Inl] lats by (simp add: render_custom_def)
  next
    case lons: (Inr lons)
    then have "lon_col m \<noteq> None"
      by (cases "lon_col m") (simp_all add: df_getitem_def)
    with a assms have "heading_col m = None" by auto
    with lats lons show ?thesis
      by (simp add: render_custom_def df_getitem_None)
  qed
qed

lemma classify_permissive_cases:
  "classify_permissive c = Some Latitude \<Longrightarrow> contains (strip (lower c)) ''lat''"
  "classify_permissive c = Some Longitude \<Longrightarrow>
     contains (strip (lower c)) ''lon'' \<or> contains (strip (lower c)) ''long''"
  "classify_permissive c = Some Heading \<Longrightarrow> contains (strip (lower c)) ''head''"
  by (simp_all add: classify_permissive_def Let_def split: if_splits)

lemmas eval_simps = norm_simps contains_def sublist_code columns_def df_getitem_def
  unresolved_def Let_def getitem_def index_of_def radians_def

lemma custom_two_rows:
  "plot_with_custom_settings
     (Inr [(''lat'', [0, 1]), (''lon'', [0, 1]), (''heading'', [0, 90])]) 1 =
   \<lparr>printed = [],
    shown = Some \<lparr>scatter = [(0, 0), (1, 1)],
                  heading_lines = [((0, 0), (0, 1)), ((1, 1), (2, 1))],
                  track = [(0, 0), (1, 1)],
                  histogram = Some \<lparr>hist_x = [0, 90], hist_bins = 36, hist_range = None\<rparr>\<rparr>,
    returned = Inr (Some [(''lat'', [0, 1]), (''lon'', [0, 1]), (''heading'', [0, 90])])\<rparr>"
  by (simp add: plot_with_custom_settings_def render_custom_def resolve_permissive_def
      permissive_body_def compute_segments_custom_def segment_ends_eq eval_simps)

lemma basic_two_rows:
  "load_and_plot_gps_track
     (Inr [(''latitude'', [0, 1]), (''longitude'', [0, 1]), (''course'', [0, 90])]) 1 =
   \<lparr>printed = [Loaded 2, Columns [''latitude'', ''longitude'', ''course''],
               DataPreview [(''latitude'', [0, 1]), (''longitude'', [0, 1]), (''course'', [0, 90])],
               TrackStatistics, LatitudeRange 0 1, LongitudeRange 0 1, HeadingRange 0 90],
    shown = Some \<lparr>scatter = [(0, 0), (1, 1)],
                  heading_lines = [((0, 0), (1, 0)), ((1, 1), (2, 1))],
                  track = [(0, 0), (1, 1)],
                  histogram = None\<rparr>,
    returned = Inr (Some [(''latitude'', [0, 1]), (''longitude'', [0, 1]), (''course'', [0, 90])])\<rparr>"
  by (simp add: load_and_plot_gps_track_def render_basic_def resolve_strict_def
      strict_body_def compute_segments_def shifted_headings_eq segment_ends_eq eval_simps
      py_all_def truthy_def len_df_def head_df_def statistics_def np_min_def np_max_def)

subsection \<open>The histogram\<close>









subsection \<open>Cells that may be NaN or infinite\<close>

lemma fl_add_zero: "fl_add x (Finite 0) = x"
  by (cases x) simp_all

lemma fl_mul_zero_finite: "is_finite y \<Longrightarrow> fl_mul (Finite 0) y = Finite 0"
  by (cases y) simp_all

lemma fl_angle_finite: "is_finite h \<Longrightarrow> is_finite (fl_sin (fl_radians (fl_sub (Finite 90) h)))
    \<and> is_finite (fl_cos (fl_radians (fl_sub (Finite 90) h)))"
  by (cases h) (simp_all add: fl_sub_def)

lemma fl_angle_nan: "\<not> is_finite h \<Longrightarrow> fl_sin (fl_radians (fl_sub (Finite 90) h)) = NaN
    \<and> fl_cos (fl_radians (fl_sub (Finite 90) h)) = NaN"
  by (cases h) (simp_all add: fl_sub_def)

lemma fl_add_NaN_right: "fl_add x NaN = NaN"
  by (cases x) simp_all

lemma fl_mul_NaN_right: "fl_mul x NaN = NaN"
  by (cases x) simp_all

lemma fl_np_add_same: "length xs = length ys \<Longrightarrow> fl_np_add xs ys = Inr (map2 fl_add xs ys)"
  by (simp add: fl_np_add_def)

lemma fl_segment_ends_eq:
  assumes "length lats = length hs" "length lons = length hs"
  shows "fl_segment_ends lats lons hs l =
     Inr (map2 fl_add lats (map (\<lambda>h. fl_mul l (fl_sin (fl_radians (fl_sub (Finite 90) h)))) hs),
          map2 fl_add lons (map (\<lambda>h. fl_mul l (fl_cos (fl_radians (fl_sub (Finite 90) h)))) hs))"
  using assms by (simp add: fl_segment_ends_def Let_def fl_np_add_same comp_def)

lemma fl_row_finite:
  "is_finite h \<Longrightarrow> fl_add p (fl_mul (Finite 0) (fl_sin (fl_radians (fl_sub (Finite 90) h)))) = p
     \<and> fl_add p (fl_mul (Finite 0) (fl_cos (fl_radians (fl_sub (Finite 90) h)))) = p"
  using fl_angle_finite[of h] by (simp add: fl_mul_zero_finite fl_add_zero)

lemma fl_row_nan:
  "\<not> is_finite h \<Longrightarrow> fl_add p (fl_mul l (fl_sin (fl_radians (fl_sub (Finite 90) h)))) = NaN
     \<and> fl_add p (fl_mul l (fl_cos (fl_radians (fl_sub (Finite 90) h)))) = NaN"
  using fl_angle_nan[of h] by (simp add: fl_mul_NaN_right fl_add_NaN_right)

lemma fl_shifted_headings_eq:
  "headings \<noteq> [] \<Longrightarrow> fl_shifted_headings headings = Inr (tl headings @ [last headings])"
  by (simp add: fl_shifted_headings_def fl_zeros_like_def getslice_all getslice_from_1 setslice_all
      setslice_but_last getitem_last setitem_last)

lemma fl_zero_rows:
  assumes "length lats = length hs" "length lons = length hs"
  shows "\<exists>el eo. fl_segment_ends lats lons hs (Finite 0) = Inr (el, eo)
           \<and> length el = length hs \<and> length eo = length hs
           \<and> (\<forall>i. i < length hs \<longrightarrow>
                (is_finite (hs ! i) \<longrightarrow> el ! i = lats ! i \<and> eo ! i = lons ! i)
              \<and> (\<not> is_finite (hs ! i) \<longrightarrow> el ! i = NaN \<and> eo ! i = NaN))"
proof -
  let ?el = "map2 fl_add lats (map (\<lambda>h. fl_mul (Finite 0) (fl_sin (fl_radians (fl_sub (Finite 90) h)))) hs)"
  let ?eo = "map2 fl_add lons (map (\<lambda>h. fl_mul (Finite 0) (fl_cos (fl_radians (fl_sub (Finite 90) h)))) hs)"
  have seg: "fl_segment_ends lats lons hs (Finite 0) = Inr (?el, ?eo)"
    using assms by (rule fl_segment_ends_eq)
  have len: "length ?el = length hs" "length ?eo = length hs"
    using assms by simp_all
  have row: "(is_finite (hs ! i) \<longrightarrow> ?el ! i = lats ! i \<and> ?eo ! i = lons ! i)
              \<and> (\<not> is_finite (hs ! i) \<longrightarrow> ?el ! i = NaN \<and> ?eo ! i = NaN)"
    if "i < length hs" for i
    using that assms fl_row_finite[of "hs ! i"] fl_row_nan[of "hs ! i"] by simp
  from seg len row show ?thesis by blast
qed

lemma fl_refines_real:
  assumes "length lats = length hs" "length lons = length hs"
  shows "fl_segment_ends (map Finite lats) (map Finite lons) (map Finite hs) (Finite l) =
     (case segment_ends lats lons hs l of
        Inl e \<Rightarrow> Inl e
      | Inr (a, b) \<Rightarrow> Inr (map Finite a, map Finite b))"
proof -
  have m: "map2 fl_add (map Finite xs) (map (\<lambda>h. Finite (f h)) ys)
      = map Finite (map2 (+) xs (map f ys))" for xs ys f
    by (induction xs ys rule: list_induct2') simp_all
  show ?thesis
    using assms
    by (simp add: fl_segment_ends_eq segment_ends_eq fl_sub_def comp_def m)
qed

section \<open>The claims\<close>

text \<open>
  C1. In \<^verbatim>\<open>load_and_plot_gps_track\<close>, for a headings array of N rows, N at least 1, the
  shift succeeds and gives an array of N rows in which row \<open>i\<close> holds the heading of row
  \<open>i + 1\<close> for every \<open>i\<close> up to N - 2, and the last row holds its own heading; with one row,
  row 0 holds its own heading.
\<close>

theorem shifted_headings_next_row:
  assumes "headings \<noteq> []"
  shows "\<exists>sh. shifted_headings headings = Inr sh \<and> length sh = length headings
           \<and> (\<forall>i. i + 1 < length headings \<longrightarrow> sh ! i = headings ! (i + 1))
           \<and> sh ! (length headings - 1) = headings ! (length headings - 1)
           \<and> (length headings = 1 \<longrightarrow> sh ! 0 = headings ! 0)"
proof -
  let ?sh = "tl headings @ [last headings]"
  have 1: "shifted_headings headings = Inr ?sh"
    using assms by (rule shifted_headings_eq)
  have 2: "length ?sh = length headings"
    using assms by simp
  have 3: "?sh ! i = headings ! (i + 1)" if "i + 1 < length headings" for i
  proof -
    from that have "i < length (tl headings)" by simp
    then have "?sh ! i = tl headings ! i" by (simp add: nth_append)
    also have "\<dots> = headings ! (i + 1)" using that by (simp add: nth_tl)
    finally show ?thesis .
  qed
  have 4: "?sh ! (length headings - 1) = headings ! (length headings - 1)"
    using assms by (simp add: nth_append last_conv_nth)
  have 5: "length headings = 1 \<longrightarrow> ?sh ! 0 = headings ! 0"
    using 4 by auto
  from 1 2 3 4 5 show ?thesis by blast
qed

theorem shifted_headings_next_row_witness:
  "[10, 20, 30 :: real] \<noteq> [] \<and> shifted_headings [10, 20, 30] = Inr [20, 30, 30]"
proof -
  have ne: "[10, 20, 30 :: real] \<noteq> []" by simp
  from shifted_headings_next_row[OF ne] obtain sh where
    sh: "shifted_headings [10, 20, 30] = Inr sh"
    and len: "length sh = length [10, 20, 30 :: real]"
    and nxt: "\<forall>i. i + 1 < length [10, 20, 30 :: real] \<longrightarrow> sh ! i = [10, 20, 30 :: real] ! (i + 1)"
    and own: "sh ! (length [10, 20, 30 :: real] - 1) = [10, 20, 30 :: real] ! (length [10, 20, 30 :: real] - 1)"
    by blast
  from nxt have "0 + 1 < length [10, 20, 30 :: real] \<longrightarrow> sh ! 0 = [10, 20, 30 :: real] ! (0 + 1)"
    by (rule spec)
  then have 0: "sh ! 0 = 20" by simp
  from nxt have "1 + 1 < length [10, 20, 30 :: real] \<longrightarrow> sh ! 1 = [10, 20, 30 :: real] ! (1 + 1)"
    by (rule spec)
  then have 1: "sh ! 1 = 30" by simp
  from own have 2: "sh ! 2 = 30" by (simp add: numeral_2_eq_2)
  from len obtain a b c where abc: "sh = [a, b, c]"
    by (auto simp: numeral_3_eq_3 length_Suc_conv)
  with 0 1 2 have "sh = [20, 30, 30]" by simp
  with sh ne show ?thesis by simp
qed

text \<open>
  C2 (as the code has it). In both resolver loops a later column overwrites an earlier one:
  each category resolves to the last column, in scan order, that the loop body assigns to it
  (a name is tested for latitude first, then longitude, then heading), and to nothing when the
  body assigns no column to it.
\<close>

theorem resolve_last_match_wins:
  "resolve_strict cols =
     \<lparr>lat_col = last_of classify_strict Latitude cols,
      lon_col = last_of classify_strict Longitude cols,
      heading_col = last_of classify_strict Heading cols\<rparr>
   \<and> resolve_permissive cols =
     \<lparr>lat_col = last_of classify_permissive Latitude cols,
      lon_col = last_of classify_permissive Longitude cols,
      heading_col = last_of classify_permissive Heading cols\<rparr>"
proof
  show "resolve_strict cols =
     \<lparr>lat_col = last_of classify_strict Latitude cols,
      lon_col = last_of classify_strict Longitude cols,
      heading_col = last_of classify_strict Heading cols\<rparr>"
    unfolding resolve_strict_def by (rule foldl_last_of) (rule strict_body_classify)
  show "resolve_permissive cols =
     \<lparr>lat_col = last_of classify_permissive Latitude cols,
      lon_col = last_of classify_permissive Longitude cols,
      heading_col = last_of classify_permissive Heading cols\<rparr>"
    unfolding resolve_permissive_def by (rule foldl_last_of) (rule permissive_body_classify)
qed

text \<open>
  C2 as stated fails: with two latitude columns the strict loop ends on the second one, not on
  the first match, and so does the permissive loop.
\<close>

theorem resolve_first_match_counterexample:
  "lat_col (resolve_strict [''latitude_a'', ''latitude_b'', ''longitude'', ''course''])
     = Some ''latitude_b''
   \<and> spec_first_match classify_strict Latitude [''latitude_a'', ''latitude_b'', ''longitude'', ''course'']
     = Some ''latitude_a''
   \<and> lat_col (resolve_strict [''latitude_a'', ''latitude_b'', ''longitude'', ''course''])
     \<noteq> spec_first_match classify_strict Latitude
         [''latitude_a'', ''latitude_b'', ''longitude'', ''course'']
   \<and> lat_col (resolve_permissive [''lat_a'', ''lat_b'', ''lon'', ''heading'']) = Some ''lat_b''
   \<and> spec_first_match classify_permissive Latitude [''lat_a'', ''lat_b'', ''lon'', ''heading'']
     = Some ''lat_a''"
  by (simp add: resolve_strict_def strict_body_def resolve_permissive_def permissive_body_def
      spec_first_match_def classify_strict_def classify_permissive_def unresolved_def
      Let_def norm_simps contains_def sublist_code)

text \<open>
  C10. In the strict loop the longitude test is the same as the single test for \<open>long\<close>; a
  name that is not latitude is assigned to longitude when its normalised form contains
  \<open>long\<close> and leaves longitude untouched otherwise. The names \<open>long\<close> and \<open>headlong\<close>
  resolve as longitude.
\<close>

theorem strict_longitude_iff_long:
  "((contains s ''longitude'' \<or> contains s ''long'') = contains s ''long'')
   \<and> (\<not> contains (strip (lower col)) ''latitude'' \<longrightarrow>
        (contains (strip (lower col)) ''long'' \<longrightarrow> strict_body m col = m\<lparr>lon_col := Some col\<rparr>)
      \<and> (\<not> contains (strip (lower col)) ''long'' \<longrightarrow> lon_col (strict_body m col) = lon_col m))
   \<and> lon_col (resolve_strict [''long'']) = Some ''long''
   \<and> lon_col (resolve_strict [''headlong'']) = Some ''headlong''"
proof -
  have 1: "(contains s ''longitude'' \<or> contains s ''long'') = contains s ''long''"
    by (rule longitude_test)
  have 2: "contains (strip (lower col)) ''long'' \<longrightarrow> strict_body m col = m\<lparr>lon_col := Some col\<rparr>"
    if "\<not> contains (strip (lower col)) ''latitude''"
    using that by (simp add: strict_body_def Let_def)
  have 3: "\<not> contains (strip (lower col)) ''long'' \<longrightarrow> lon_col (strict_body m col) = lon_col m"
    if "\<not> contains (strip (lower col)) ''latitude''"
    using that contains_longitude_long[of "strip (lower col)"]
    by (auto simp: strict_body_def Let_def)
  have 4: "lon_col (resolve_strict [''long'']) = Some ''long''"
    by (simp add: resolve_strict_def strict_body_def Let_def norm_simps contains_def sublist_code)
  have 5: "lon_col (resolve_strict [''headlong'']) = Some ''headlong''"
    by (simp add: resolve_strict_def strict_body_def Let_def norm_simps contains_def sublist_code)
  from 1 2 3 4 5 show ?thesis by blast
qed

theorem strict_longitude_iff_long_witness:
  "\<not> contains (strip (lower ''Headlong '')) ''latitude''
   \<and> contains (strip (lower ''Headlong '')) ''long''
   \<and> strict_body unresolved ''Headlong '' = unresolved\<lparr>lon_col := Some ''Headlong ''\<rparr>
   \<and> \<not> contains (strip (lower ''Course'')) ''latitude''
   \<and> \<not> contains (strip (lower ''Course'')) ''long''
   \<and> lon_col (strict_body unresolved ''Course'') = lon_col unresolved"
proof -
  have a: "\<not> contains (strip (lower ''Headlong '')) ''latitude''"
    and b: "contains (strip (lower ''Headlong '')) ''long''"
    and c: "\<not> contains (strip (lower ''Course'')) ''latitude''"
    and d: "\<not> contains (strip (lower ''Course'')) ''long''"
    by (simp_all add: norm_simps contains_def sublist_code)
  from a b c d
    strict_longitude_iff_long[of "''x''" "''Headlong ''" unresolved]
    strict_longitude_iff_long[of "''x''" "''Course''" unresolved]
  show ?thesis by blast
qed

text \<open>
  C4. In \<^verbatim>\<open>load_and_plot_gps_track\<close>, for a table of at least one row, the end of the
  segment of every row \<open>i\<close> is
  \<open>end_lat[i] = lat[i] + line_length * sin (radians (90 - shifted_heading[i]))\<close> and
  \<open>end_lon[i] = lon[i] + line_length * cos (radians (90 - shifted_heading[i]))\<close>.
\<close>

theorem segment_end_formula:
  assumes "headings \<noteq> []" "length lats = length headings" "length lons = length headings"
  shows "\<exists>sh end_lats end_lons.
           shifted_headings headings = Inr sh
         \<and> compute_segments lats lons headings line_length = Inr (end_lats, end_lons)
         \<and> length end_lats = length headings \<and> length end_lons = length headings
         \<and> (\<forall>i. i < length headings \<longrightarrow>
               end_lats ! i = lats ! i + line_length * sin (radians (90 - sh ! i))
             \<and> end_lons ! i = lons ! i + line_length * cos (radians (90 - sh ! i)))"
proof -
  let ?sh = "tl headings @ [last headings]"
  let ?el = "map2 (+) lats (map (\<lambda>h. line_length * sin (radians (90 - h))) ?sh)"
  let ?eo = "map2 (+) lons (map (\<lambda>h. line_length * cos (radians (90 - h))) ?sh)"
  have sh: "shifted_headings headings = Inr ?sh"
    using assms(1) by (rule shifted_headings_eq)
  have len: "length ?sh = length headings"
    using assms(1) by simp
  have seg: "compute_segments lats lons headings line_length = Inr (?el, ?eo)"
    unfolding compute_segments_def sh bind_err_Inr
    by (rule segment_ends_eq) (simp_all only: len assms)
  have l1: "length ?el = length headings" and l2: "length ?eo = length headings"
    using assms by simp_all
  have pt: "?el ! i = lats ! i + line_length * sin (radians (90 - ?sh ! i))
          \<and> ?eo ! i = lons ! i + line_length * cos (radians (90 - ?sh ! i))"
    if "i < length headings" for i
  proof -
    from that len have i: "i < length ?sh" by simp
    from assms len have a: "length lats = length ?sh" and b: "length lons = length ?sh" by simp_all
    show ?thesis
      using nth_map2_add[OF i a] nth_map2_add[OF i b] by blast
  qed
  from sh seg l1 l2 pt show ?thesis by blast
qed

theorem segment_end_formula_witness:
  "[90, 0 :: real] \<noteq> [] \<and> length [2, 3 :: real] = length [90, 0 :: real]
   \<and> length [5, 7 :: real] = length [90, 0 :: real]
   \<and> compute_segments [2, 3] [5, 7] [90, 0] 2 = Inr ([4, 5], [5, 7])"
proof -
  have h1: "[90, 0 :: real] \<noteq> []" and h2: "length [2, 3 :: real] = length [90, 0 :: real]"
    and h3: "length [5, 7 :: real] = length [90, 0 :: real]" by simp_all
  have s: "shifted_headings [90, 0] = Inr [0, 0]"
    by (simp add: shifted_headings_eq)
  from segment_end_formula[OF h1 h2 h3, of 2] obtain sh el eo where
    sh: "shifted_headings [90, 0] = Inr sh"
    and seg: "compute_segments [2, 3] [5, 7] [90, 0] 2 = Inr (el, eo)"
    and l1: "length el = length [90, 0 :: real]" and l2: "length eo = length [90, 0 :: real]"
    and pt: "\<forall>i. i < length [90, 0 :: real] \<longrightarrow>
               el ! i = [2, 3] ! i + 2 * sin (radians (90 - sh ! i))
             \<and> eo ! i = [5, 7] ! i + 2 * cos (radians (90 - sh ! i))"
    by blast
  from sh s have shv: "sh = [0, 0]" by simp
  from pt have "0 < length [90, 0 :: real] \<longrightarrow>
               el ! 0 = [2, 3] ! 0 + 2 * sin (radians (90 - sh ! 0))
             \<and> eo ! 0 = [5, 7] ! 0 + 2 * cos (radians (90 - sh ! 0))" by (rule spec)
  then have p0: "el ! 0 = 4" "eo ! 0 = 5" by (simp_all add: shv radians_90)
  from pt have "1 < length [90, 0 :: real] \<longrightarrow>
               el ! 1 = [2, 3] ! 1 + 2 * sin (radians (90 - sh ! 1))
             \<and> eo ! 1 = [5, 7] ! 1 + 2 * cos (radians (90 - sh ! 1))" by (rule spec)
  then have p1: "el ! 1 = 5" "eo ! 1 = 7" by (simp_all add: shv radians_90)
  from l1 obtain a b where el: "el = [a, b]"
    by (auto simp: length_Suc_conv numeral_2_eq_2)
  from l2 obtain c d where eo: "eo = [c, d]"
    by (auto simp: length_Suc_conv numeral_2_eq_2)
  from el eo p0 p1 have "el = [4, 5]" "eo = [5, 7]" by simp_all
  with seg h1 h2 h3 show ?thesis by simp
qed

text \<open>
  C5 (as the code has it). For the rows (0, 0, 0) and (1, 1, 90) and \<open>line_length = 1\<close> the
  shifted headings are 90 and 90; the segment of row 0 ends at latitude 0, longitude 1, and the
  segment of row 1 ends at latitude 1, longitude 2.
\<close>

theorem example_segment_ends:
  "shifted_headings [0, 90] = Inr [90, 90]
   \<and> compute_segments [0, 1] [0, 1] [0, 90] 1 = Inr ([0, 1], [1, 2])"
  by (simp add: compute_segments_def shifted_headings_eq segment_ends_eq radians_0)

text \<open>
  C5 as stated fails at row 0: the end is not (latitude 1, longitude 0); each coordinate is a
  whole unit away from the stated value.
\<close>

theorem example_row0_counterexample:
  "compute_segments [0, 1] [0, 1] [0, 90] 1 \<noteq> Inr ([1, 1], [0, 2])
   \<and> \<bar>fst (projr (compute_segments [0, 1] [0, 1] [0, 90] 1)) ! 0 - 1\<bar> = 1
   \<and> \<bar>snd (projr (compute_segments [0, 1] [0, 1] [0, 90] 1)) ! 0 - 0\<bar> = 1"
  by (simp add: compute_segments_def shifted_headings_eq segment_ends_eq radians_0)

text \<open>
  C6 (as the code has it). With \<open>line_length = 0\<close>, in \<^verbatim>\<open>plot_with_custom_settings\<close> and,
  on a table of at least one row, in \<^verbatim>\<open>load_and_plot_gps_track\<close>, the segment of every row
  whose heading (the shifted one in \<^verbatim>\<open>load_and_plot_gps_track\<close>) is finite ends at the row's
  own latitude and longitude (a coordinate that is NaN stays NaN); at a row whose heading is NaN
  or infinite both ends are NaN.
\<close>

theorem zero_length_segments_finite_headings:
  assumes "length lats = length headings" "length lons = length headings"
  shows "(\<exists>el eo. fl_compute_segments_custom lats lons headings (Finite 0) = Inr (el, eo)
           \<and> length el = length headings \<and> length eo = length headings
           \<and> (\<forall>i. i < length headings \<longrightarrow>
                (is_finite (headings ! i) \<longrightarrow> el ! i = lats ! i \<and> eo ! i = lons ! i)
              \<and> (\<not> is_finite (headings ! i) \<longrightarrow> el ! i = NaN \<and> eo ! i = NaN)))
       \<and> (headings \<noteq> [] \<longrightarrow>
           (\<exists>sh el eo. fl_shifted_headings headings = Inr sh
           \<and> sh = tl headings @ [last headings]
           \<and> fl_compute_segments lats lons headings (Finite 0) = Inr (el, eo)
           \<and> length el = length headings \<and> length eo = length headings
           \<and> (\<forall>i. i < length headings \<longrightarrow>
                (is_finite (sh ! i) \<longrightarrow> el ! i = lats ! i \<and> eo ! i = lons ! i)
              \<and> (\<not> is_finite (sh ! i) \<longrightarrow> el ! i = NaN \<and> eo ! i = NaN))))"
proof
  show "\<exists>el eo. fl_compute_segments_custom lats lons headings (Finite 0) = Inr (el, eo)
           \<and> length el = length headings \<and> length eo = length headings
           \<and> (\<forall>i. i < length headings \<longrightarrow>
                (is_finite (headings ! i) \<longrightarrow> el ! i = lats ! i \<and> eo ! i = lons ! i)
              \<and> (\<not> is_finite (headings ! i) \<longrightarrow> el ! i = NaN \<and> eo ! i = NaN))"
    unfolding fl_compute_segments_custom_def using assms by (rule fl_zero_rows)
  show "headings \<noteq> [] \<longrightarrow>
           (\<exists>sh el eo. fl_shifted_headings headings = Inr sh
           \<and> sh = tl headings @ [last headings]
           \<and> fl_compute_segments lats lons headings (Finite 0) = Inr (el, eo)
           \<and> length el = length headings \<and> length eo = length headings
           \<and> (\<forall>i. i < length headings \<longrightarrow>
                (is_finite (sh ! i) \<longrightarrow> el ! i = lats ! i \<and> eo ! i = lons ! i)
              \<and> (\<not> is_finite (sh ! i) \<longrightarrow> el ! i = NaN \<and> eo ! i = NaN)))"
  proof
    assume ne: "headings \<noteq> []"
    define sh where "sh = tl headings @ [last headings]"
    have shift: "fl_shifted_headings headings = Inr sh"
      unfolding sh_def using ne by (rule fl_shifted_headings_eq)
    have len: "length sh = length headings"
      unfolding sh_def using ne by simp
    have a: "length lats = length sh" and b: "length lons = length sh"
      by (simp_all only: len assms)
    from fl_zero_rows[OF a b] obtain el eo where
      seg: "fl_segment_ends lats lons sh (Finite 0) = Inr (el, eo)"
      and l1: "length el = length sh" and l2: "length eo = length sh"
      and rows: "\<forall>i. i < length sh \<longrightarrow>
                (is_finite (sh ! i) \<longrightarrow> el ! i = lats ! i \<and> eo ! i = lons ! i)
              \<and> (\<not> is_finite (sh ! i) \<longrightarrow> el ! i = NaN \<and> eo ! i = NaN)"
      by blast
    have comp: "fl_compute_segments lats lons headings (Finite 0) = Inr (el, eo)"
      by (simp add: fl_compute_segments_def shift seg)
    from shift comp l1 l2 rows show "\<exists>sh el eo. fl_shifted_headings headings = Inr sh
           \<and> sh = tl headings @ [last headings]
           \<and> fl_compute_segments lats lons headings (Finite 0) = Inr (el, eo)
           \<and> length el = length headings \<and> length eo = length headings
           \<and> (\<forall>i. i < length headings \<longrightarrow>
                (is_finite (sh ! i) \<longrightarrow> el ! i = lats ! i \<and> eo ! i = lons ! i)
              \<and> (\<not> is_finite (sh ! i) \<longrightarrow> el ! i = NaN \<and> eo ! i = NaN))"
      unfolding len sh_def[symmetric] by blast
  qed
qed

theorem zero_length_segments_finite_headings_witness:
  "length [Finite 1, Finite 2] = length [Finite 90, NaN]
   \<and> length [Finite 3, Finite 4] = length [Finite 90, NaN]
   \<and> is_finite (Finite 90) \<and> \<not> is_finite NaN
   \<and> fl_compute_segments_custom [Finite 1, Finite 2] [Finite 3, Finite 4] [Finite 90, NaN] (Finite 0)
       = Inr ([Finite 1, NaN], [Finite 3, NaN])
   \<and> length [Finite 1, Finite 2] = length [NaN, Finite 90]
   \<and> length [Finite 3, Finite 4] = length [NaN, Finite 90]
   \<and> [NaN, Finite 90] \<noteq> []
   \<and> fl_shifted_headings [NaN, Finite 90] = Inr [Finite 90, Finite 90]
   \<and> fl_compute_segments [Finite 1, Finite 2] [Finite 3, Finite 4] [NaN, Finite 90] (Finite 0)
       = Inr ([Finite 1, Finite 2], [Finite 3, Finite 4])"
proof -
  let ?lats = "[Finite 1, Finite 2]" and ?lons = "[Finite 3, Finite 4]"
    and ?hs = "[Finite 90, NaN]" and ?gs = "[NaN, Finite 90]"
  have h1: "length ?lats = length ?hs" and h2: "length ?lons = length ?hs"
    and h4: "is_finite (Finite 90)" "\<not> is_finite NaN"
    and g1: "length ?lats = length ?gs" and g2: "length ?lons = length ?gs"
    and g3: "?gs \<noteq> []"
    by simp_all
  from zero_length_segments_finite_headings[OF h1 h2] obtain el eo where
    c: "fl_compute_segments_custom ?lats ?lons ?hs (Finite 0) = Inr (el, eo)"
    and cl: "length el = length ?hs" "length eo = length ?hs"
    and cr: "\<forall>i. i < length ?hs \<longrightarrow>
                (is_finite (?hs ! i) \<longrightarrow> el ! i = ?lats ! i \<and> eo ! i = ?lons ! i)
              \<and> (\<not> is_finite (?hs ! i) \<longrightarrow> el ! i = NaN \<and> eo ! i = NaN)"
    by blast
  from cr have "0 < length ?hs \<longrightarrow>
                (is_finite (?hs ! 0) \<longrightarrow> el ! 0 = ?lats ! 0 \<and> eo ! 0 = ?lons ! 0)
              \<and> (\<not> is_finite (?hs ! 0) \<longrightarrow> el ! 0 = NaN \<and> eo ! 0 = NaN)" by (rule spec)
  then have c0: "el ! 0 = Finite 1" "eo ! 0 = Finite 3" by simp_all
  from cr have "1 < length ?hs \<longrightarrow>
                (is_finite (?hs ! 1) \<longrightarrow> el ! 1 = ?lats ! 1 \<and> eo ! 1 = ?lons ! 1)
              \<and> (\<not> is_finite (?hs ! 1) \<longrightarrow> el ! 1 = NaN \<and> eo ! 1 = NaN)" by (rule spec)
  then have c1: "el ! 1 = NaN" "eo ! 1 = NaN" by simp_all
  from cl obtain a b a' b' where "el = [a, b]" "eo = [a', b']"
    by (auto simp: length_Suc_conv numeral_2_eq_2)
  with c0 c1 have elv: "el = [Finite 1, NaN]" "eo = [Finite 3, NaN]" by simp_all
  from zero_length_segments_finite_headings[OF g1 g2] g3 obtain sh fl fo where
    sh: "fl_shifted_headings ?gs = Inr sh"
    and s: "sh = tl ?gs @ [last ?gs]"
    and b: "fl_compute_segments ?lats ?lons ?gs (Finite 0) = Inr (fl, fo)"
    and bl: "length fl = length ?gs" "length fo = length ?gs"
    and br: "\<forall>i. i < length ?gs \<longrightarrow>
                (is_finite (sh ! i) \<longrightarrow> fl ! i = ?lats ! i \<and> fo ! i = ?lons ! i)
              \<and> (\<not> is_finite (sh ! i) \<longrightarrow> fl ! i = NaN \<and> fo ! i = NaN)"
    by blast
  from s have sv: "sh = [Finite 90, Finite 90]" by simp
  from br have "0 < length ?gs \<longrightarrow>
                (is_finite (sh ! 0) \<longrightarrow> fl ! 0 = ?lats ! 0 \<and> fo ! 0 = ?lons ! 0)
              \<and> (\<not> is_finite (sh ! 0) \<longrightarrow> fl ! 0 = NaN \<and> fo ! 0 = NaN)" by (rule spec)
  then have b0: "fl ! 0 = Finite 1" "fo ! 0 = Finite 3" by (simp_all add: sv)
  from br have "1 < length ?gs \<longrightarrow>
                (is_finite (sh ! 1) \<longrightarrow> fl ! 1 = ?lats ! 1 \<and> fo ! 1 = ?lons ! 1)
              \<and> (\<not> is_finite (sh ! 1) \<longrightarrow> fl ! 1 = NaN \<and> fo ! 1 = NaN)" by (rule spec)
  then have b1: "fl ! 1 = Finite 2" "fo ! 1 = Finite 4" by (simp_all add: sv)
  from bl obtain p q p' q' where "fl = [p, q]" "fo = [p', q']"
    by (auto simp: length_Suc_conv numeral_2_eq_2)
  with b0 b1 have flv: "fl = [Finite 1, Finite 2]" "fo = [Finite 3, Finite 4]" by simp_all
  from h1 h2 h4 g1 g2 g3 c[unfolded elv] sh[unfolded sv] b[unfolded flv] show ?thesis by blast
qed

text \<open>
  C6 as stated fails at a heading that is not finite: with \<open>line_length = 0\<close> the row
  (latitude 1, longitude 2, heading NaN) gets the ends NaN and NaN in both functions, and so
  does the heading infinity.
\<close>

theorem zero_length_nan_heading_counterexample:
  "fl_compute_segments_custom [Finite 1] [Finite 2] [NaN] (Finite 0) = Inr ([NaN], [NaN])
   \<and> fl_compute_segments [Finite 1] [Finite 2] [NaN] (Finite 0) = Inr ([NaN], [NaN])
   \<and> fl_compute_segments_custom [Finite 1] [Finite 2] [Inf True] (Finite 0) = Inr ([NaN], [NaN])
   \<and> [NaN] \<noteq> [Finite 1] \<and> [NaN] \<noteq> [Finite 2]"
  by (simp add: fl_compute_segments_custom_def fl_compute_segments_def fl_shifted_headings_eq
      fl_segment_ends_eq fl_sub_def)

text \<open>
  C7. \<^verbatim>\<open>load_and_plot_gps_track\<close> prints the error and returns \<open>None\<close> when the file
  cannot be loaded; when one of the three categories is unresolved it prints the error and the
  available columns and returns \<open>None\<close>, whatever the rows hold, without drawing and without
  raising; whatever it returns other than \<open>None\<close> is the loaded table; and on a loaded table of
  at least one row with the three categories resolved it shows a figure and returns the table.
\<close>

theorem load_and_plot_returns:
  "load_and_plot_gps_track (Inl e) line_length =
     \<lparr>printed = [ErrorLoadingCSV e], shown = None, returned = Inr None\<rparr>
   \<and> (lat_col (resolve_strict (columns df)) = None
        \<or> lon_col (resolve_strict (columns df)) = None
        \<or> heading_col (resolve_strict (columns df)) = None \<longrightarrow>
      load_and_plot_gps_track (Inr df) line_length =
        \<lparr>printed = [Loaded (len_df df), Columns (columns df), DataPreview (head_df df),
                    ErrorRequiredColumns, AvailableColumns (columns df)],
         shown = None, returned = Inr None\<rparr>)
   \<and> (returned (load_and_plot_gps_track r line_length) = Inr (Some t) \<longrightarrow> r = Inr t)
   \<and> (wf_table df \<and> 0 < len_df df
        \<and> lat_col (resolve_strict (columns df)) \<noteq> None
        \<and> lon_col (resolve_strict (columns df)) \<noteq> None
        \<and> heading_col (resolve_strict (columns df)) \<noteq> None \<longrightarrow>
      returned (load_and_plot_gps_track (Inr df) line_length) = Inr (Some df)
      \<and> shown (load_and_plot_gps_track (Inr df) line_length) \<noteq> None)"
proof -
  let ?m = "resolve_strict (columns df)"
  have 1: "load_and_plot_gps_track (Inl e) line_length =
     \<lparr>printed = [ErrorLoadingCSV e], shown = None, returned = Inr None\<rparr>"
    by (simp add: load_and_plot_gps_track_def)
  have 2: "load_and_plot_gps_track (Inr df) line_length =
        \<lparr>printed = [Loaded (len_df df), Columns (columns df), DataPreview (head_df df),
                    ErrorRequiredColumns, AvailableColumns (columns df)],
         shown = None, returned = Inr None\<rparr>"
    if "lat_col ?m = None \<or> lon_col ?m = None \<or> heading_col ?m = None"
  proof -
    from that have "\<not> py_all [lat_col ?m, lon_col ?m, heading_col ?m]"
      by (auto simp: py_all_3 truthy_None)
    then show ?thesis
      by (simp add: load_and_plot_gps_track_def Let_def)
  qed
  have 3: "r = Inr t" if "returned (load_and_plot_gps_track r line_length) = Inr (Some t)"
    using that
    by (cases r) (auto simp: load_and_plot_gps_track_def Let_def split: if_splits sum.splits)
  have 4: "returned (load_and_plot_gps_track (Inr df) line_length) = Inr (Some df)
      \<and> shown (load_and_plot_gps_track (Inr df) line_length) \<noteq> None"
    if wf: "wf_table df" and rows: "0 < len_df df"
      and a: "lat_col ?m \<noteq> None" and b: "lon_col ?m \<noteq> None" and c: "heading_col ?m \<noteq> None"
  proof -
    from a obtain ca where ca: "lat_col ?m = Some ca" by auto
    from b obtain co where co: "lon_col ?m = Some co" by auto
    from c obtain ch where ch: "heading_col ?m = Some ch" by auto
    from ca have la: "last_of classify_strict Latitude (columns df) = Some ca"
      by (simp add: resolve_strict_last)
    from co have lo: "last_of classify_strict Longitude (columns df) = Some co"
      by (simp add: resolve_strict_last)
    from ch have lh: "last_of classify_strict Heading (columns df) = Some ch"
      by (simp add: resolve_strict_last)
    have all: "py_all [lat_col ?m, lon_col ?m, heading_col ?m]"
      unfolding py_all_3 ca co ch
      using truthy_last_of_strict[OF la] truthy_last_of_strict[OF lo] truthy_last_of_strict[OF lh]
      by simp
    from render_basic_ok[OF wf rows ca _ co _ ch, of line_length]
      last_of_in_set[OF la] last_of_in_set[OF lo] last_of_in_set[OF lh]
    obtain fig stats where "render_basic df ?m line_length = Inr (fig, stats)"
      by blast
    with all show ?thesis
      by (simp add: load_and_plot_gps_track_def Let_def)
  qed
  from 1 2 3 4 show ?thesis by blast
qed

theorem load_and_plot_returns_witness:
  "lat_col (resolve_strict (columns [(''lat'', [1]), (''lon'', [2]), (''course'', [3])])) = None
   \<and> load_and_plot_gps_track (Inr [(''lat'', [1]), (''lon'', [2]), (''course'', [3])]) 1 =
        \<lparr>printed = [Loaded 1, Columns [''lat'', ''lon'', ''course''],
                    DataPreview [(''lat'', [1]), (''lon'', [2]), (''course'', [3])],
                    ErrorRequiredColumns, AvailableColumns [''lat'', ''lon'', ''course'']],
         shown = None, returned = Inr None\<rparr>
   \<and> wf_table [(''Latitude'', [0, 1]), (''Longitude'', [0, 1]), (''Course'', [0, 90])]
   \<and> 0 < len_df [(''Latitude'', [0, 1]), (''Longitude'', [0, 1]), (''Course'', [0, 90])]
   \<and> lat_col (resolve_strict
        (columns [(''Latitude'', [0, 1]), (''Longitude'', [0, 1]), (''Course'', [0, 90])])) \<noteq> None
   \<and> lon_col (resolve_strict
        (columns [(''Latitude'', [0, 1]), (''Longitude'', [0, 1]), (''Course'', [0, 90])])) \<noteq> None
   \<and> heading_col (resolve_strict
        (columns [(''Latitude'', [0, 1]), (''Longitude'', [0, 1]), (''Course'', [0, 90])])) \<noteq> None
   \<and> returned (load_and_plot_gps_track
        (Inr [(''Latitude'', [0, 1]), (''Longitude'', [0, 1]), (''Course'', [0, 90])]) 1)
       = Inr (Some [(''Latitude'', [0, 1]), (''Longitude'', [0, 1]), (''Course'', [0, 90])])"
proof -
  let ?bad = "[(''lat'', [1]), (''lon'', [2]), (''course'', [3])] :: table"
  let ?ok = "[(''Latitude'', [0, 1]), (''Longitude'', [0, 1]), (''Course'', [0, 90])] :: table"
  have bad: "lat_col (resolve_strict (columns ?bad)) = None"
    by (simp add: resolve_strict_def strict_body_def eval_simps)
  have ok: "wf_table ?ok" "0 < len_df ?ok"
    "lat_col (resolve_strict (columns ?ok)) \<noteq> None"
    "lon_col (resolve_strict (columns ?ok)) \<noteq> None"
    "heading_col (resolve_strict (columns ?ok)) \<noteq> None"
    by (simp_all add: wf_table_def len_df_def resolve_strict_def strict_body_def eval_simps)
  from bad load_and_plot_returns[where df = "?bad" and line_length = 1]
  have 1: "load_and_plot_gps_track (Inr ?bad) 1 =
        \<lparr>printed = [Loaded (len_df ?bad), Columns (columns ?bad), DataPreview (head_df ?bad),
                    ErrorRequiredColumns, AvailableColumns (columns ?bad)],
         shown = None, returned = Inr None\<rparr>"
    by blast
  from ok load_and_plot_returns[where df = "?ok" and line_length = 1]
  have 2: "returned (load_and_plot_gps_track (Inr ?ok) 1) = Inr (Some ?ok)"
    by blast
  have 3: "len_df ?bad = 1" "columns ?bad = [''lat'', ''lon'', ''course'']" "head_df ?bad = ?bad"
    by (simp_all add: len_df_def columns_def head_df_def)
  from bad ok 1 2 show ?thesis
    unfolding 3 by blast
qed

text \<open>
  C8. When no column name matches one of the three categories of the permissive loop,
  \<^verbatim>\<open>plot_with_custom_settings\<close> prints nothing, shows nothing and does not return: the
  \<open>KeyError\<close> of the lookup with the unset column leaves the function.
\<close>

theorem custom_unresolved_raises_lookup_error:
  assumes "\<not> list_ex (\<lambda>c. contains (strip (lower c)) ''lat'') (columns df)
         \<or> \<not> list_ex (\<lambda>c. contains (strip (lower c)) ''lon''
                          \<or> contains (strip (lower c)) ''long'') (columns df)
         \<or> \<not> list_ex (\<lambda>c. contains (strip (lower c)) ''head'') (columns df)"
  shows "plot_with_custom_settings (Inr df) line_length =
           \<lparr>printed = [], shown = None, returned = Inl KeyError\<rparr>"
proof -
  let ?m = "resolve_permissive (columns df)"
  from assms have "lat_col ?m = None \<or> lon_col ?m = None \<or> heading_col ?m = None"
    unfolding resolve_permissive_last list_ex_iff
    by (auto simp: last_of_None dest: classify_permissive_cases)
  then have "render_custom df ?m line_length = Inl KeyError"
    by (rule render_custom_unresolved)
  then show ?thesis
    by (simp add: plot_with_custom_settings_def)
qed

theorem custom_unresolved_raises_lookup_error_witness:
  "\<not> list_ex (\<lambda>c. contains (strip (lower c)) ''lon'' \<or> contains (strip (lower c)) ''long'')
        (columns [(''lat'', [1]), (''heading'', [2])])
   \<and> plot_with_custom_settings (Inr [(''lat'', [1]), (''heading'', [2])]) 1 =
           \<lparr>printed = [], shown = None, returned = Inl KeyError\<rparr>"
proof -
  have h: "\<not> list_ex (\<lambda>c. contains (strip (lower c)) ''lon'' \<or> contains (strip (lower c)) ''long'')
        (columns [(''lat'', [1]), (''heading'', [2])])"
    by (simp add: eval_simps)
  then have "\<not> list_ex (\<lambda>c. contains (strip (lower c)) ''lat'')
          (columns [(''lat'', [1]), (''heading'', [2])])
    \<or> \<not> list_ex (\<lambda>c. contains (strip (lower c)) ''lon'' \<or> contains (strip (lower c)) ''long'')
        (columns [(''lat'', [1]), (''heading'', [2])])
    \<or> \<not> list_ex (\<lambda>c. contains (strip (lower c)) ''head'')
        (columns [(''lat'', [1]), (''heading'', [2])])"
    by blast
  from h custom_unresolved_raises_lookup_error[OF this, of 1] show ?thesis by blast
qed




text \<open>
  C3, at the headings 0 and 90 on the rows (0, 0) and (1, 1) with \<open>line_length = 1\<close>:
  \<^verbatim>\<open>plot_with_custom_settings\<close> draws the segment of row 0 from its own heading 0, to
  longitude 0 and latitude 1, where \<^verbatim>\<open>load_and_plot_gps_track\<close> draws it from the heading 90
  of row 1, to longitude 1 and latitude 0.
\<close>

theorem custom_draws_own_heading:
  "map_option heading_lines (shown (plot_with_custom_settings
       (Inr [(''lat'', [0, 1]), (''lon'', [0, 1]), (''heading'', [0, 90])]) 1))
     = Some [((0, 0), (0, 1)), ((1, 1), (2, 1))]
   \<and> map_option heading_lines (shown (load_and_plot_gps_track
       (Inr [(''latitude'', [0, 1]), (''longitude'', [0, 1]), (''course'', [0, 90])]) 1))
     = Some [((0, 0), (1, 0)), ((1, 1), (2, 1))]"
  by (simp add: custom_two_rows basic_two_rows)

end
